theory Spec2Isabelle
  imports Main "HOL-Library.Sublist" "HOL-Library.Multiset"
begin

section \<open>Values decoded by \<open>json.load\<close>\<close>

text \<open>
  The two data files are decoded by Python's \<open>json.load\<close>. A decoded value is
  \<open>None\<close>, a bool, an int, a float, a str, a list or a dict with string keys.
  A float is represented by its Python \<open>repr\<close> (which identifies it); an object by
  the list of its items in insertion order, looked up with \<open>map_of\<close>.
  Strings are byte strings (UTF-8).
\<close>

datatype json =
    JNull
  | JBool bool
  | JInt int
  | JFloat string
  | JStr string
  | JList "json list"
  | JDict "(string \<times> json) list"

text \<open>The exceptions that the scripts raise or that can escape from the calls they make.\<close>

datatype exn =
    WikiGenerationError string
  | KeyError string
  | TypeError
  | AttributeError
  | UnboundLocalError
  | UnicodeDecodeError
  | FileExistsError
  | OSError
  | JSONDecodeError
  | CalledProcessError int "string list"
  | RequestException

text \<open>Truth value of a decoded value (\<open>if x\<close>, \<open>not x\<close>, \<open>x or y\<close>).\<close>

fun truthy :: "json \<Rightarrow> bool" where
  "truthy JNull = False"
| "truthy (JBool b) = b"
| "truthy (JInt i) = (i \<noteq> 0)"
| "truthy (JFloat r) = (r \<noteq> ''0.0'' \<and> r \<noteq> ''-0.0'')"
| "truthy (JStr s) = (s \<noteq> [])"
| "truthy (JList xs) = (xs \<noteq> [])"
| "truthy (JDict kvs) = (kvs \<noteq> [])"

fun is_dict :: "json \<Rightarrow> bool" where
  "is_dict (JDict kvs) = True"
| "is_dict j = False"

text \<open>\<open>d[k]\<close>: KeyError on a dict without the key, TypeError on anything that is not a
  dict (a list or a str indexed by a str, or a value that is not subscriptable).\<close>

fun subscript :: "json \<Rightarrow> string \<Rightarrow> exn + json" where
  "subscript (JDict kvs) k = (case map_of kvs k of None \<Rightarrow> Inl (KeyError k) | Some v \<Rightarrow> Inr v)"
| "subscript j k = Inl TypeError"

text \<open>\<open>d.get(k, default)\<close>: only a dict has the method.\<close>

fun py_get :: "json \<Rightarrow> string \<Rightarrow> json \<Rightarrow> exn + json" where
  "py_get (JDict kvs) k d = (case map_of kvs k of None \<Rightarrow> Inr d | Some v \<Rightarrow> Inr v)"
| "py_get j k d = Inl AttributeError"

text \<open>\<open>label.get('name', '')\<close> on a value already known to be a dict.\<close>

fun dict_get :: "json \<Rightarrow> string \<Rightarrow> json \<Rightarrow> json" where
  "dict_get (JDict kvs) k d = (case map_of kvs k of None \<Rightarrow> d | Some v \<Rightarrow> v)"
| "dict_get j k d = d"

subsection \<open>Formatting\<close>

function show_nat :: "nat \<Rightarrow> string" where
  "show_nat n = (if n < 10 then [char_of (48 + n)] else show_nat (n div 10) @ [char_of (48 + n mod 10)])"
  by pat_completeness auto
termination
  by (relation "measure id") auto

declare show_nat.simps [simp del]

definition show_int :: "int \<Rightarrow> string" where
  "show_int i = (if i < 0 then ''-'' @ show_nat (nat (- i)) else show_nat (nat i))"

text \<open>\<open>', '.join(xs)\<close> on strings.\<close>

fun join_strs :: "string \<Rightarrow> string list \<Rightarrow> string" where
  "join_strs sep [] = []"
| "join_strs sep [x] = x"
| "join_strs sep (x # y # ys) = x @ sep @ join_strs sep (y # ys)"

text \<open>
  \<open>repr\<close> and \<open>str\<close> of a decoded value. The \<open>repr\<close> of a string (quoting and
  escaping, which depends on the Unicode database) is the parameter \<open>rs\<close>.
\<close>

fun py_repr :: "(string \<Rightarrow> string) \<Rightarrow> json \<Rightarrow> string" where
  "py_repr rs JNull = ''None''"
| "py_repr rs (JBool b) = (if b then ''True'' else ''False'')"
| "py_repr rs (JInt i) = show_int i"
| "py_repr rs (JFloat r) = r"
| "py_repr rs (JStr s) = rs s"
| "py_repr rs (JList xs) = ''['' @ join_strs '', '' (map (py_repr rs) xs) @ '']''"
| "py_repr rs (JDict kvs) =
     ''{'' @ join_strs '', '' (map (\<lambda>(k, v). rs k @ '': '' @ py_repr rs v) kvs) @ ''}''"

definition py_str :: "(string \<Rightarrow> string) \<Rightarrow> json \<Rightarrow> string" where
  "py_str rs j = (case j of JStr s \<Rightarrow> s | _ \<Rightarrow> py_repr rs j)"

text \<open>\<open>sep.join(xs)\<close> on decoded values: TypeError unless every item is a str.\<close>

fun the_strs :: "json list \<Rightarrow> exn + string list" where
  "the_strs [] = Inr []"
| "the_strs (JStr s # xs) = (case the_strs xs of Inl e \<Rightarrow> Inl e | Inr ss \<Rightarrow> Inr (s # ss))"
| "the_strs (j # xs) = Inl TypeError"

definition py_join :: "string \<Rightarrow> json list \<Rightarrow> exn + string" where
  "py_join sep xs = (case the_strs xs of Inl e \<Rightarrow> Inl e | Inr ss \<Rightarrow> Inr (join_strs sep ss))"

text \<open>\<open>needle in haystack\<close> on strings.\<close>

fun str_in :: "string \<Rightarrow> string \<Rightarrow> bool" where
  "str_in s [] = (s = [])"
| "str_in s (c # cs) = (prefix s (c # cs) \<or> str_in s cs)"

text \<open>\<open>s.strip()\<close>: the ASCII whitespace of \<open>str.isspace\<close>.\<close>

definition is_space :: "char \<Rightarrow> bool" where
  "is_space c = (let n = of_char c :: nat in (9 \<le> n \<and> n \<le> 13) \<or> (28 \<le> n \<and> n \<le> 32))"

definition strip :: "string \<Rightarrow> string" where
  "strip s = rev (dropWhile is_space (rev (dropWhile is_space s)))"

text \<open>Bytes outside printable ASCII that the literals of the script contain.\<close>

definition nl :: string where "nl = [CHR 0x0A]"
definition a_acute :: string where "a_acute = [CHR 0xC3, CHR 0xA1]"
definition e_acute :: string where "e_acute = [CHR 0xC3, CHR 0xA9]"
definition i_acute :: string where "i_acute = [CHR 0xC3, CHR 0xAD]"
definition o_acute :: string where "o_acute = [CHR 0xC3, CHR 0xB3]"

section \<open>Label normalisation\<close>

text \<open>
  \<open>format_labels\<close> (generate\_wiki.py, lines 230--243). It has no raising operation:
  \<open>label.get\<close> is only called when every item is a dict.
\<close>

definition format_labels :: "json \<Rightarrow> json list" where
  "format_labels labels_data =
     (if \<not> truthy labels_data then []
      else case labels_data of
        JList xs \<Rightarrow>
          if list_all is_dict xs then map (\<lambda>label. dict_get label ''name'' (JStr '''')) xs
          else xs
      | JStr s \<Rightarrow> [JStr s]
      | _ \<Rightarrow> [])"


section \<open>The world the script runs in\<close>

text \<open>
  What the script reads is the environment \<open>env\<close>, fixed for a run: the working
  directory, the two data files, the two environment variables, the answers of the
  GitHub API and of every subprocess, and Python's formatting of strings and exceptions.
  What it changes is the \<open>world\<close>: the node at \<open>wiki_content\<close>, the credential
  file, the current directory, and the records of the subprocesses run, the API calls
  made and the lines printed.
\<close>

type_synonym files = "(string \<times> string) list"

datatype node = Absent | RegularFile | Directory files

text \<open>A data file: missing, not openable (IOError), not UTF-8, not JSON, or decoded.\<close>

datatype data_file = Missing | Unreadable | NotUtf8 | Malformed | Content json

record completed =
  returncode :: int
  stdout :: string
  stderr :: string

record response =
  status_code :: int
  json_body :: "json option"

record env =
  original_dir :: string
  data_dir_exists :: bool
  issues_file :: data_file
  milestones_file :: data_file
  GITHUB_TOKEN :: "string option"
  GITHUB_REPOSITORY :: "string option"
  http_get :: "response option"
  http_patch :: "response option"
  subprocess_run :: "nat \<Rightarrow> string list \<Rightarrow> completed option"
  can_write :: "string \<Rightarrow> bool"
  checked_out :: "string list \<Rightarrow> files \<Rightarrow> files"
  repr_of_str :: "string \<Rightarrow> string"
  str_of_exn :: "exn \<Rightarrow> string"

record world =
  wiki_node :: node
  git_credentials :: bool
  cwd :: string
  commands :: "string list list"
  api_calls :: "string list"
  printed :: "string list"

text \<open>A statement: it ends with a value or with an exception, and leaves a world.\<close>

type_synonym 'a io = "world \<Rightarrow> (exn + 'a) \<times> world"

definition return :: "'a \<Rightarrow> 'a io" where
  "return x w = (Inr x, w)"

definition raise :: "exn \<Rightarrow> 'a io" where
  "raise e w = (Inl e, w)"

definition bind :: "'a io \<Rightarrow> ('a \<Rightarrow> 'b io) \<Rightarrow> 'b io" where
  "bind m f w = (case m w of (Inl e, w') \<Rightarrow> (Inl e, w') | (Inr x, w') \<Rightarrow> f x w')"

definition lift :: "exn + 'a \<Rightarrow> 'a io" where
  "lift r w = (r, w)"

definition if_do :: "bool \<Rightarrow> unit io \<Rightarrow> unit io" where
  "if_do b m = (if b then m else return ())"

text \<open>\<open>for x in xs: body\<close>\<close>

fun for_each :: "'a list \<Rightarrow> ('a \<Rightarrow> unit io) \<Rightarrow> unit io" where
  "for_each [] body = return ()"
| "for_each (x # xs) body = bind (body x) (\<lambda>_. for_each xs body)"

definition print :: "string \<Rightarrow> unit io" where
  "print s w = (Inr (), w\<lparr>printed := printed w @ [s]\<rparr>)"

definition path_join :: "string \<Rightarrow> string \<Rightarrow> string" where
  "path_join d n = (if d = ''/'' then d @ n else d @ ''/'' @ n)"

subsection \<open>Subprocesses\<close>

text \<open>
  What a finished subprocess does to \<open>wiki_content\<close>: \<open>rm -rf\<close> that exits with 0
  has removed it, \<open>git clone\<close> that exits with 0 has created it, and a checkout or
  pull that exits with 0 has put the files of the branch there. A subprocess that
  exits with another status leaves the node as it was.
\<close>

definition effect :: "env \<Rightarrow> string list \<Rightarrow> completed \<Rightarrow> node \<Rightarrow> node" where
  "effect env cmd r nd =
     (if returncode r \<noteq> 0 then nd
      else if take 2 cmd = [''rm'', ''-rf''] then Absent
      else if take 2 cmd = [''git'', ''clone''] then Directory (checked_out env cmd [])
      else if take 2 cmd = [''git'', ''checkout''] \<or> take 2 cmd = [''git'', ''pull'']
        then (case nd of Directory fs \<Rightarrow> Directory (checked_out env cmd fs) | _ \<Rightarrow> nd)
      else nd)"

text \<open>\<open>subprocess.run(cmd, ...)\<close> without \<open>check\<close>: OSError when the program cannot
  be started. The answer is the environment's, for the n-th subprocess of the run.\<close>

definition subprocess :: "env \<Rightarrow> string list \<Rightarrow> completed io" where
  "subprocess env cmd w =
     (case subprocess_run env (length (commands w)) cmd of
        None \<Rightarrow> (Inl OSError, w\<lparr>commands := commands w @ [cmd]\<rparr>)
      | Some r \<Rightarrow>
          (Inr r, w\<lparr>commands := commands w @ [cmd],
                    wiki_node := effect env cmd r (wiki_node w)\<rparr>))"

text \<open>\<open>run_command\<close> (lines 11--19)\<close>

definition run_command :: "env \<Rightarrow> string list \<Rightarrow> bool \<Rightarrow> completed io" where
  "run_command env cmd check =
     bind (subprocess env cmd) (\<lambda>result.
       if check \<and> returncode result \<noteq> 0 then
         bind (print (''Error ejecutando '' @ join_strs '' '' cmd)) (\<lambda>_.
         bind (print (''stdout: '' @ stdout result)) (\<lambda>_.
         bind (print (''stderr: '' @ stderr result)) (\<lambda>_.
         raise (CalledProcessError (returncode result) cmd))))
       else return result)"

text \<open>\<open>get_default_branch\<close> (lines 21--29): the bare \<open>except\<close> swallows every
  exception of the query.\<close>

definition get_default_branch :: "env \<Rightarrow> string \<Rightarrow> string io" where
  "get_default_branch env wiki_url w =
     (case run_command env [''git'', ''ls-remote'', ''--symref'', wiki_url, ''HEAD''] False w of
        (Inl e, w') \<Rightarrow> (Inr ''main'', w')
      | (Inr result, w') \<Rightarrow>
          if str_in ''ref: refs/heads/master'' (stdout result) then (Inr ''master'', w')
          else (Inr ''main'', w'))"

text \<open>\<open>run_git_command\<close> (lines 31--48): an exception of \<open>run_command\<close> that is not
  a WikiGenerationError is wrapped into one.\<close>

definition run_git_command :: "env \<Rightarrow> string list \<Rightarrow> string option \<Rightarrow> bool \<Rightarrow> completed io" where
  "run_git_command env cmd error_msg check w =
     (case run_command env cmd False w of
        (Inl (WikiGenerationError m), w') \<Rightarrow> (Inl (WikiGenerationError m), w')
      | (Inl e, w') \<Rightarrow>
          (Inl (WikiGenerationError (''Error ejecutando Git: '' @ str_of_exn env e)), w')
      | (Inr result, w') \<Rightarrow>
          if check \<and> returncode result \<noteq> 0 then
            if str_in ''Authentication failed'' (stderr result) then
              (Inl (WikiGenerationError
                 (''Autenticaci'' @ o_acute @ ''n Git fallida. Verifica el token.'')), w')
            else if str_in ''repository not found'' (stderr result) then
              (Inl (WikiGenerationError
                 (''Repositorio wiki no encontrado. Verifica que est'' @ e_acute
                    @ '' habilitado.'')), w')
            else (case error_msg of
                Some msg \<Rightarrow> (Inl (WikiGenerationError (msg @ '': '' @ stderr result)), w')
              | None \<Rightarrow>
                  (Inl (WikiGenerationError (''Error en comando Git: '' @ stderr result)), w'))
          else (Inr result, w'))"

text \<open>\<open>safe_cleanup\<close> (lines 310--316): only a directory is removed; a failing
  \<open>rm\<close> is printed and swallowed.\<close>

definition safe_cleanup :: "env \<Rightarrow> string \<Rightarrow> unit io" where
  "safe_cleanup env directory w =
     (case wiki_node w of
        Directory fs \<Rightarrow>
          bind (subprocess env [''rm'', ''-rf'', directory]) (\<lambda>r.
            if returncode r \<noteq> 0 then
              print (''Error limpiando '' @ directory @ '': ''
                @ str_of_exn env (CalledProcessError (returncode r) [''rm'', ''-rf'', directory]))
            else return ()) w
      | _ \<Rightarrow> (Inr (), w))"

subsection \<open>Files of the wiki working tree\<close>

fun put_file :: "string \<Rightarrow> string \<Rightarrow> files \<Rightarrow> files" where
  "put_file n c [] = [(n, c)]"
| "put_file n c ((m, d) # fs) = (if m = n then (n, c) # fs else (m, d) # put_file n c fs)"

text \<open>\<open>open(wiki_dir / name, 'w')\<close>: creates or truncates the file; IOError (which is
  OSError) when the directory is not there or the file cannot be written.\<close>

definition open_w :: "env \<Rightarrow> string \<Rightarrow> unit io" where
  "open_w env name w =
     (case wiki_node w of
        Directory fs \<Rightarrow>
          if can_write env name then (Inr (), w\<lparr>wiki_node := Directory (put_file name [] fs)\<rparr>)
          else (Inl OSError, w)
      | _ \<Rightarrow> (Inl OSError, w))"

text \<open>\<open>f.write(s)\<close> on the file opened under \<open>name\<close>: appends.\<close>

definition f_write :: "string \<Rightarrow> string \<Rightarrow> unit io" where
  "f_write name s w =
     (case wiki_node w of
        Directory fs \<Rightarrow>
          (Inr (), w\<lparr>wiki_node :=
             Directory (put_file name ((case map_of fs name of None \<Rightarrow> [] | Some c \<Rightarrow> c) @ s) fs)\<rparr>)
      | _ \<Rightarrow> (Inl OSError, w))"



section \<open>Content generation\<close>

text \<open>\<open>verify_json_content\<close> (lines 294--308). A UnicodeDecodeError of the decoder is
  neither a JSONDecodeError nor an IOError and escapes as it is.\<close>

definition verify_json_content :: "env \<Rightarrow> string \<Rightarrow> data_file \<Rightarrow> json io" where
  "verify_json_content env file_path file =
     (case file of
        Missing \<Rightarrow> raise (WikiGenerationError (''Archivo no encontrado: '' @ file_path))
      | Unreadable \<Rightarrow>
          raise (WikiGenerationError
            (''Error leyendo archivo '' @ file_path @ '': '' @ str_of_exn env OSError))
      | NotUtf8 \<Rightarrow> raise UnicodeDecodeError
      | Malformed \<Rightarrow>
          raise (WikiGenerationError
            (''Error decodificando '' @ file_path @ '': '' @ str_of_exn env JSONDecodeError))
      | Content data \<Rightarrow>
          bind (if_do (\<not> truthy data)
                  (print (''Advertencia: '' @ file_path @ '' est'' @ a_acute @ '' vac''
                            @ i_acute @ ''o''))) (\<lambda>_.
          return data))"

text \<open>\<open>for x in v\<close>: a list gives its items, a dict its keys, a str its characters
  (here its bytes; the loops below fail on the first of them either way), and any
  other value is not iterable.\<close>

fun py_iter :: "json \<Rightarrow> exn + json list" where
  "py_iter (JList xs) = Inr xs"
| "py_iter (JDict kvs) = Inr (map (\<lambda>(k, v). JStr k) kvs)"
| "py_iter (JStr s) = Inr (map (\<lambda>c. JStr [c]) s)"
| "py_iter j = Inl TypeError"

text \<open>\<open>[i for i in issues if i['state'] == state]\<close> (lines 245 and 267)\<close>

fun with_state :: "string \<Rightarrow> json list \<Rightarrow> exn + json list" where
  "with_state state [] = Inr []"
| "with_state state (i # rest) =
     (case subscript i ''state'' of
        Inl e \<Rightarrow> Inl e
      | Inr v \<Rightarrow>
          (case with_state state rest of
             Inl e \<Rightarrow> Inl e
           | Inr found \<Rightarrow> Inr (if v = JStr state then i # found else found)))"

definition issues_with_state :: "string \<Rightarrow> json \<Rightarrow> exn + json list" where
  "issues_with_state state issues =
     (case py_iter issues of Inl e \<Rightarrow> Inl e | Inr xs \<Rightarrow> with_state state xs)"

definition home_text :: string where
  "home_text =
     ''# UM Tesorer'' @ i_acute @ ''a MercadoPago Service Wiki'' @ nl @ nl
     @ ''Bienvenido a la Wiki del servicio de integraci'' @ o_acute
     @ ''n con MercadoPago de UM Tesorer'' @ i_acute @ ''a.'' @ nl @ nl
     @ ''## Navegaci'' @ o_acute @ ''n R'' @ a_acute @ ''pida'' @ nl @ nl
     @ ''- ['' @ ''[Milestones]'' @ '']'' @ nl
     @ ''- ['' @ ''[Issues-Activos]'' @ '']'' @ nl
     @ ''- ['' @ ''[Issues-Cerrados]'' @ '']'' @ nl"

definition sin_descripcion :: string where
  "sin_descripcion = ''Sin descripci'' @ o_acute @ ''n''"

text \<open>The body of the milestone loop (lines 221--227), writing to the open file.\<close>

definition write_milestone :: "env \<Rightarrow> string \<Rightarrow> json \<Rightarrow> unit io" where
  "write_milestone env f ms =
     bind (lift (subscript ms ''title'')) (\<lambda>title.
     bind (f_write f (''## '' @ py_str (repr_of_str env) title @ nl)) (\<lambda>_.
     bind (lift (subscript ms ''state'')) (\<lambda>state.
     bind (f_write f (''**Estado:** '' @ py_str (repr_of_str env) state @ nl @ nl)) (\<lambda>_.
     bind (lift (py_get ms ''description'' JNull)) (\<lambda>d.
     bind (f_write f (''**Descripci'' @ o_acute @ ''n:** ''
             @ (if truthy d then py_str (repr_of_str env) d else sin_descripcion) @ nl @ nl)) (\<lambda>_.
     bind (lift (py_get ms ''due_on'' JNull)) (\<lambda>due.
     bind (if_do (truthy due)
             (bind (lift (subscript ms ''due_on'')) (\<lambda>due_on.
              f_write f (''**Fecha l'' @ i_acute @ ''mite:** ''
                @ py_str (repr_of_str env) due_on @ nl @ nl)))) (\<lambda>_.
     f_write f (''---'' @ nl @ nl)))))))))"

text \<open>The milestone lines of an issue (lines 251--258, and again 274--281).\<close>

definition write_issue_milestone :: "env \<Rightarrow> string \<Rightarrow> json \<Rightarrow> unit io" where
  "write_issue_milestone env f issue =
     bind (lift (py_get issue ''milestone'' JNull)) (\<lambda>m.
     if_do (truthy m)
       (bind (lift (subscript issue ''milestone'')) (\<lambda>milestone.
        bind (if is_dict milestone
              then lift (py_get milestone ''title'' (JStr (''Sin t'' @ i_acute @ ''tulo'')))
              else return milestone) (\<lambda>milestone_title.
        f_write f (''**Milestone:** '' @ py_str (repr_of_str env) milestone_title
                     @ nl @ nl)))))"

text \<open>The label lines of an issue (lines 259--262, and again 282--285).\<close>

definition write_issue_labels :: "string \<Rightarrow> json \<Rightarrow> unit io" where
  "write_issue_labels f issue =
     bind (lift (py_get issue ''labels'' JNull)) (\<lambda>l.
     if_do (truthy l)
       (bind (lift (subscript issue ''labels'')) (\<lambda>labels_data.
        if_do (format_labels labels_data \<noteq> [])
          (bind (lift (py_join '', '' (format_labels labels_data))) (\<lambda>joined.
           f_write f (''**Labels:** '' @ joined @ nl @ nl))))))"

text \<open>The body lines of an issue (lines 263--264, and again 286--287).\<close>

definition write_issue_body :: "env \<Rightarrow> string \<Rightarrow> json \<Rightarrow> unit io" where
  "write_issue_body env f issue =
     bind (lift (py_get issue ''body'' JNull)) (\<lambda>b.
     f_write f ((if truthy b then py_str (repr_of_str env) b else sin_descripcion)
                  @ nl @ nl @ ''---'' @ nl @ nl))"

text \<open>The body of the loop over the active issues (lines 249--264).\<close>

definition write_active_issue :: "env \<Rightarrow> string \<Rightarrow> json \<Rightarrow> unit io" where
  "write_active_issue env f issue =
     bind (lift (subscript issue ''number'')) (\<lambda>number.
     bind (lift (subscript issue ''title'')) (\<lambda>title.
     bind (f_write f (''## #'' @ py_str (repr_of_str env) number @ '': ''
             @ py_str (repr_of_str env) title @ nl)) (\<lambda>_.
     bind (lift (subscript issue ''created_at'')) (\<lambda>created_at.
     bind (f_write f (''**Creado:** '' @ py_str (repr_of_str env) created_at @ nl @ nl)) (\<lambda>_.
     bind (write_issue_milestone env f issue) (\<lambda>_.
     bind (write_issue_labels f issue) (\<lambda>_.
     write_issue_body env f issue)))))))"

text \<open>The body of the loop over the closed issues (lines 271--287).\<close>

definition write_closed_issue :: "env \<Rightarrow> string \<Rightarrow> json \<Rightarrow> unit io" where
  "write_closed_issue env f issue =
     bind (lift (subscript issue ''number'')) (\<lambda>number.
     bind (lift (subscript issue ''title'')) (\<lambda>title.
     bind (f_write f (''## #'' @ py_str (repr_of_str env) number @ '': ''
             @ py_str (repr_of_str env) title @ nl)) (\<lambda>_.
     bind (lift (subscript issue ''created_at'')) (\<lambda>created_at.
     bind (f_write f (''**Creado:** '' @ py_str (repr_of_str env) created_at @ nl)) (\<lambda>_.
     bind (lift (py_get issue ''closed_at'' (JStr ''Desconocido''))) (\<lambda>closed_at.
     bind (f_write f (''**Cerrado:** '' @ py_str (repr_of_str env) closed_at @ nl @ nl)) (\<lambda>_.
     bind (write_issue_milestone env f issue) (\<lambda>_.
     bind (write_issue_labels f issue) (\<lambda>_.
     write_issue_body env f issue)))))))))"

text \<open>The \<open>try\<close> block of \<open>generate_wiki_content\<close> (lines 204--289).\<close>

definition write_pages :: "env \<Rightarrow> json \<Rightarrow> json \<Rightarrow> bool io" where
  "write_pages env issues milestones =
     bind (open_w env ''Home.md'') (\<lambda>_.
     bind (f_write ''Home.md'' home_text) (\<lambda>_.
     bind (open_w env ''Milestones.md'') (\<lambda>_.
     bind (f_write ''Milestones.md'' (''# Milestones del Servicio MercadoPago'' @ nl @ nl)) (\<lambda>_.
     bind (lift (py_iter milestones)) (\<lambda>mss.
     bind (for_each mss (write_milestone env ''Milestones.md'')) (\<lambda>_.
     bind (lift (issues_with_state ''open'' issues)) (\<lambda>active_issues.
     bind (open_w env ''Issues-Activos.md'') (\<lambda>_.
     bind (f_write ''Issues-Activos.md''
             (''# Issues Activos - Servicio MercadoPago'' @ nl @ nl)) (\<lambda>_.
     bind (for_each active_issues (write_active_issue env ''Issues-Activos.md'')) (\<lambda>_.
     bind (lift (issues_with_state ''closed'' issues)) (\<lambda>closed_issues.
     bind (open_w env ''Issues-Cerrados.md'') (\<lambda>_.
     bind (f_write ''Issues-Cerrados.md''
             (''# Issues Cerrados - Servicio MercadoPago'' @ nl @ nl)) (\<lambda>_.
     bind (for_each closed_issues (write_closed_issue env ''Issues-Cerrados.md'')) (\<lambda>_.
     return True))))))))))))))"

text \<open>\<open>except IOError\<close> (lines 290--292): printed, and the result is False.\<close>

definition except_IOError :: "env \<Rightarrow> bool io \<Rightarrow> bool io" where
  "except_IOError env m w =
     (case m w of
        (Inl e, w') \<Rightarrow>
          if e = OSError \<or> e = FileExistsError then
            bind (print (''Error escribiendo archivos de la wiki del Servicio MercadoPago: ''
                           @ str_of_exn env e)) (\<lambda>_. return False) w'
          else (Inl e, w')
      | (Inr ok, w') \<Rightarrow> (Inr ok, w'))"

text \<open>\<open>generate_wiki_content\<close> (lines 188--292). The directory \<open>wiki_dir\<close> is the
  node of the world.\<close>

definition generate_wiki_content :: "env \<Rightarrow> string \<Rightarrow> bool io" where
  "generate_wiki_content env data_dir =
     bind (verify_json_content env (path_join data_dir ''issues.json'') (issues_file env))
       (\<lambda>issues.
     bind (verify_json_content env (path_join data_dir ''milestones.json'')
             (milestones_file env)) (\<lambda>milestones.
     if \<not> truthy issues \<and> \<not> truthy milestones then
       bind (print ''No hay datos para generar en la wiki'') (\<lambda>_. return False)
     else except_IOError env (write_pages env issues milestones)))"


section \<open>The synchronisation run\<close>

text \<open>\<open>verify_token\<close> (lines 50--57)\<close>

definition verify_token :: "env \<Rightarrow> string io" where
  "verify_token env =
     (case GITHUB_TOKEN env of
        None \<Rightarrow> raise (WikiGenerationError ''GITHUB_TOKEN no encontrado en variables de entorno'')
      | Some token \<Rightarrow>
          if token = [] then
            raise (WikiGenerationError ''GITHUB_TOKEN no encontrado en variables de entorno'')
          else if strip token = [] then
            raise (WikiGenerationError (''GITHUB_TOKEN est'' @ a_acute @ '' vac'' @ i_acute @ ''o''))
          else return token)"

text \<open>The \<open>except\<close> clause of \<open>check_repo_access\<close> (lines 339--347), for a response
  that was received.\<close>

definition api_error :: "env \<Rightarrow> response \<Rightarrow> exn" where
  "api_error env response =
     (if status_code response = 401 then
        WikiGenerationError (''Token inv'' @ a_acute @ ''lido o expirado'')
      else if status_code response = 403 then
        WikiGenerationError ''Token sin permisos suficientes''
      else if status_code response = 404 then
        WikiGenerationError ''Repositorio no encontrado''
      else WikiGenerationError (''Error de API: '' @ str_of_exn env RequestException))"

text \<open>
  \<open>check_repo_access\<close> (lines 318--347). When \<open>requests.get\<close> itself raises, the
  \<open>except\<close> clause reads \<open>response\<close>, which is not bound: UnboundLocalError.
  \<open>raise_for_status\<close> raises for a status from 400 to 599, and \<open>response.json()\<close>
  raises a RequestException when the body is not JSON.
\<close>

definition check_repo_access :: "env \<Rightarrow> string \<Rightarrow> json io" where
  "check_repo_access env api_url w =
     (let w1 = w\<lparr>api_calls := api_calls w @ [''GET '' @ api_url]\<rparr> in
      case http_get env of
        None \<Rightarrow> (Inl UnboundLocalError, w1)
      | Some response \<Rightarrow>
          if 400 \<le> status_code response \<and> status_code response < 600 then
            (Inl (api_error env response), w1)
          else (case json_body response of
            None \<Rightarrow> (Inl (api_error env response), w1)
          | Some repo_data \<Rightarrow>
              bind (lift (py_get repo_data ''permissions'' (JDict []))) (\<lambda>permissions.
              bind (lift (py_get permissions ''push'' JNull)) (\<lambda>push.
              if \<not> truthy push then
                bind (print (''Permisos actuales: '' @ py_str (repr_of_str env) permissions)) (\<lambda>_.
                raise (WikiGenerationError ''El token no tiene permisos de escritura''))
              else
                bind (lift (py_get permissions ''pull'' JNull)) (\<lambda>pull.
                if \<not> truthy pull then
                  raise (WikiGenerationError ''El token no tiene permisos de lectura'')
                else
                  bind (lift (py_get repo_data ''has_wiki'' JNull)) (\<lambda>has_wiki.
                  bind (lift (py_get permissions ''admin'' JNull)) (\<lambda>admin.
                  if \<not> truthy has_wiki \<and> \<not> truthy admin then
                    raise (WikiGenerationError
                      (''La wiki est'' @ a_acute
                         @ '' deshabilitada y el token no tiene permisos para habilitarla''))
                  else return repo_data))))) w1))"

text \<open>\<open>requests.patch(api_url, ..., json={'has_wiki': True})\<close> (lines 96--98)\<close>

definition enable_wiki :: "env \<Rightarrow> string \<Rightarrow> unit io" where
  "enable_wiki env api_url w =
     (let w1 = w\<lparr>api_calls := api_calls w @ [''PATCH '' @ api_url]\<rparr> in
      case http_patch env of
        None \<Rightarrow> (Inl RequestException, w1)
      | Some response \<Rightarrow>
          if status_code response \<noteq> 200 then
            (Inl (WikiGenerationError
               (''Error habilitando wiki: '' @ show_int (status_code response))), w1)
          else (Inr (), w1))"

text \<open>\<open>wiki_dir.mkdir(exist_ok=True)\<close> and \<open>os.chdir\<close>\<close>

definition mkdir_exist_ok :: "unit io" where
  "mkdir_exist_ok w =
     (case wiki_node w of
        Absent \<Rightarrow> (Inr (), w\<lparr>wiki_node := Directory []\<rparr>)
      | RegularFile \<Rightarrow> (Inl FileExistsError, w)
      | Directory fs \<Rightarrow> (Inr (), w))"

definition chdir_wiki :: "string \<Rightarrow> unit io" where
  "chdir_wiki wiki_dir w =
     (case wiki_node w of
        Directory fs \<Rightarrow> (Inr (), w\<lparr>cwd := wiki_dir\<rparr>)
      | _ \<Rightarrow> (Inl OSError, w))"

definition chdir_original :: "string \<Rightarrow> unit io" where
  "chdir_original dir w = (Inr (), w\<lparr>cwd := dir\<rparr>)"

text \<open>What follows the generation of the content for a wiki that could not be cloned
  (lines 134--138): stage, commit, name the branch, push.\<close>

definition publish_initial :: "env \<Rightarrow> unit io" where
  "publish_initial env =
     bind (run_git_command env [''git'', ''add'', ''.''] None True) (\<lambda>_.
     bind (run_git_command env [''git'', ''commit'', ''-m'', ''Initial wiki content'']
             None True) (\<lambda>_.
     bind (run_git_command env [''git'', ''branch'', ''-M'', ''main''] None True) (\<lambda>_.
     bind (run_git_command env [''git'', ''push'', ''--force'', ''origin'', ''main'']
             None True) (\<lambda>_.
     print ''Wiki inicializada exitosamente''))))"

text \<open>What follows the generation of the content for a cloned wiki (lines 155--161):
  stage, read the status, and commit and push when the status is not blank.\<close>

definition publish_update :: "env \<Rightarrow> string \<Rightarrow> unit io" where
  "publish_update env default_branch =
     bind (run_git_command env [''git'', ''add'', ''.''] None True) (\<lambda>_.
     bind (run_git_command env [''git'', ''status'', ''--porcelain''] None True) (\<lambda>status.
     if_do (strip (stdout status) \<noteq> [])
       (bind (run_git_command env [''git'', ''commit'', ''-m'', ''Update wiki content'']
                None True) (\<lambda>_.
        bind (run_git_command env [''git'', ''push'', ''origin'', default_branch]
                None True) (\<lambda>_.
        print ''Wiki actualizada exitosamente'')))))"

text \<open>The branch for a wiki that could not be cloned (lines 122--138).\<close>

definition initialize_wiki :: "env \<Rightarrow> string \<Rightarrow> string \<Rightarrow> string \<Rightarrow> unit io" where
  "initialize_wiki env wiki_url wiki_dir data_dir =
     bind mkdir_exist_ok (\<lambda>_.
     bind (chdir_wiki wiki_dir) (\<lambda>_.
     bind (run_git_command env [''git'', ''init'']
             (Some ''Error inicializando repositorio'') True) (\<lambda>_.
     bind (run_git_command env [''git'', ''remote'', ''add'', ''origin'', wiki_url]
             (Some ''Error configurando remote'') True) (\<lambda>_.
     bind (generate_wiki_content env data_dir) (\<lambda>generated.
     if \<not> generated then
       raise (WikiGenerationError ''No se pudo generar el contenido inicial'')
     else publish_initial env)))))"

text \<open>The branch for a cloned wiki (lines 140--161).\<close>

definition update_wiki :: "env \<Rightarrow> string \<Rightarrow> string \<Rightarrow> string \<Rightarrow> unit io" where
  "update_wiki env wiki_url wiki_dir data_dir =
     bind (chdir_wiki wiki_dir) (\<lambda>_.
     bind (get_default_branch env wiki_url) (\<lambda>default_branch.
     bind (print (''Usando rama existente: '' @ default_branch)) (\<lambda>_.
     bind (run_git_command env [''git'', ''checkout'', default_branch]
             (Some ''Error cambiando a rama por defecto'') True) (\<lambda>checkout_result.
     bind (run_git_command env [''git'', ''pull'', ''origin'', default_branch]
             (Some ''Error actualizando rama'') True) (\<lambda>pull_result.
     bind (generate_wiki_content env data_dir) (\<lambda>generated.
     if \<not> generated then
       raise (WikiGenerationError ''No se pudo generar el contenido'')
     else publish_update env default_branch))))))"

text \<open>The \<open>try\<close> block of \<open>generate_wiki_pages\<close> (lines 75--162).\<close>

definition synchronize :: "env \<Rightarrow> string \<Rightarrow> string \<Rightarrow> unit io" where
  "synchronize env wiki_dir data_dir =
     bind (verify_token env) (\<lambda>token.
     bind (\<lambda>w. if_do (wiki_node w \<noteq> Absent) (safe_cleanup env wiki_dir) w) (\<lambda>_.
     bind (lift (case GITHUB_REPOSITORY env of
                   None \<Rightarrow> Inl (KeyError ''GITHUB_REPOSITORY'')
                 | Some repo \<Rightarrow> Inr repo)) (\<lambda>repo.
     bind (print ''Verificando acceso al repositorio y permisos...'') (\<lambda>_.
     bind (check_repo_access env (''https://api.github.com/repos/'' @ repo)) (\<lambda>repo_data.
     bind (lift (py_get repo_data ''has_wiki'' JNull)) (\<lambda>has_wiki.
     bind (if_do (\<not> truthy has_wiki)
             (bind (print ''Habilitando wiki...'') (\<lambda>_.
              enable_wiki env (''https://api.github.com/repos/'' @ repo)))) (\<lambda>_.
     bind (return (''https://x-access-token:'' @ token @ ''@github.com/'' @ repo
                     @ ''.wiki.git'')) (\<lambda>wiki_url.
     bind (print ''URL de wiki configurada (token oculto)'') (\<lambda>_.
     bind (run_command env
             [''git'', ''config'', ''--global'', ''user.name'', ''github-actions[bot]''] True) (\<lambda>_.
     bind (run_command env
             [''git'', ''config'', ''--global'', ''user.email'',
              ''github-actions[bot]@users.noreply.github.com''] True) (\<lambda>_.
     bind (print ''Verificando acceso Git...'') (\<lambda>_.
     bind (run_git_command env [''git'', ''ls-remote'', wiki_url]
             (Some ''No se puede acceder al repositorio wiki'') True) (\<lambda>_.
     bind (print (''Intentando clonar wiki en: '' @ wiki_dir)) (\<lambda>_.
     bind (run_git_command env [''git'', ''clone'', wiki_url, wiki_dir]
             (Some ''Error clonando repositorio wiki'') False) (\<lambda>clone_result.
     if returncode clone_result \<noteq> 0
     then initialize_wiki env wiki_url wiki_dir data_dir
     else update_wiki env wiki_url wiki_dir data_dir)))))))))))))))"

text \<open>The \<open>except\<close> clauses of \<open>generate_wiki_pages\<close> (lines 164--174): every
  exception leaves as a WikiGenerationError.\<close>

definition handle :: "env \<Rightarrow> exn \<Rightarrow> exn" where
  "handle env e =
     (case e of
        WikiGenerationError m \<Rightarrow> e
      | CalledProcessError rc cmd \<Rightarrow>
          if str_in ''Authentication failed'' (str_of_exn env e) then
            WikiGenerationError (''Autenticaci'' @ o_acute @ ''n Git fallida. Verifica el token.'')
          else WikiGenerationError (''Error en operaci'' @ o_acute @ ''n Git: '' @ str_of_exn env e)
      | RequestException \<Rightarrow> WikiGenerationError (''Error en API de GitHub: '' @ str_of_exn env e)
      | _ \<Rightarrow> WikiGenerationError (''Error inesperado: '' @ str_of_exn env e))"

text \<open>The \<open>finally\<close> clause (lines 175--186). \<open>success\<close> is the flag that only the last
  statement of the \<open>try\<close> block sets.\<close>

definition finalize :: "env \<Rightarrow> string \<Rightarrow> bool \<Rightarrow> unit io" where
  "finalize env wiki_dir success =
     bind (chdir_original (original_dir env)) (\<lambda>_.
     bind (print (''Volviendo a directorio original: '' @ original_dir env)) (\<lambda>_.
     bind (\<lambda>w. if_do (\<not> success \<and> wiki_node w \<noteq> Absent) (safe_cleanup env wiki_dir) w) (\<lambda>_.
     (\<lambda>w. (Inr (), w\<lparr>git_credentials := False\<rparr>)))))"

text \<open>\<open>try: body except ...: raise ... finally: ...\<close>. An exception of the \<open>finally\<close>
  clause replaces the outcome of the body.\<close>

definition try_finally :: "env \<Rightarrow> unit io \<Rightarrow> (bool \<Rightarrow> unit io) \<Rightarrow> unit io" where
  "try_finally env body final w =
     (case body w of
        (Inl e, w1) \<Rightarrow>
          (case final False w1 of
             (Inl e', w2) \<Rightarrow> (Inl e', w2)
           | (Inr u, w2) \<Rightarrow> (Inl (handle env e), w2))
      | (Inr u, w1) \<Rightarrow> final True w1)"

text \<open>\<open>generate_wiki_pages\<close> (lines 59--186)\<close>

definition generate_wiki_pages :: "env \<Rightarrow> unit io" where
  "generate_wiki_pages env =
     bind (print (''Iniciando generaci'' @ o_acute @ ''n de Wiki desde '' @ original_dir env)) (\<lambda>_.
     if \<not> data_dir_exists env then
       raise (WikiGenerationError
         (''Directorio de datos no encontrado: '' @ path_join (original_dir env) ''data''))
     else
       try_finally env
         (synchronize env (path_join (original_dir env) ''wiki_content'')
            (path_join (original_dir env) ''data''))
         (finalize env (path_join (original_dir env) ''wiki_content'')))"

section \<open>Observations on runs\<close>

text \<open>The subprocesses that stage, commit or push.\<close>

definition publishes :: "string list \<Rightarrow> bool" where
  "publishes cmd = (take 2 cmd = [''git'', ''add''] \<or> take 2 cmd = [''git'', ''commit'']
                    \<or> take 2 cmd = [''git'', ''push''])"

text \<open>A statement that starts no subprocess and leaves the credential file alone.\<close>

definition quiet :: "'a io \<Rightarrow> bool" where
  "quiet m = (\<forall>w. commands (snd (m w)) = commands w
                \<and> git_credentials (snd (m w)) = git_credentials w)"

text \<open>A statement that starts no subprocess of the kind \<open>P\<close>.\<close>

definition keeps :: "(string list \<Rightarrow> bool) \<Rightarrow> 'a io \<Rightarrow> bool" where
  "keeps P m = (\<forall>w. filter P (commands (snd (m w))) = filter P (commands w))"

text \<open>A statement that always ends with an exception.\<close>

definition failing :: "'a io \<Rightarrow> bool" where
  "failing m = (\<forall>w. isl (fst (m w)))"

text \<open>What the repository access check reads from the API's description of the
  repository: a permission flag, and whether the wiki is enabled. A missing flag counts
  as not granted, as \<open>not permissions.get(...)\<close> does.\<close>

definition permission :: "json \<Rightarrow> string \<Rightarrow> bool" where
  "permission repo_data k =
     truthy (dict_get (dict_get repo_data ''permissions'' (JDict [])) k JNull)"

definition wiki_enabled :: "json \<Rightarrow> bool" where
  "wiki_enabled repo_data = truthy (dict_get repo_data ''has_wiki'' JNull)"

text \<open>The message of the error that the check raises for a repository it refuses.\<close>

definition refusal :: "json \<Rightarrow> string" where
  "refusal repo_data =
     (if \<not> permission repo_data ''push'' then ''El token no tiene permisos de escritura''
      else if \<not> permission repo_data ''pull'' then ''El token no tiene permisos de lectura''
      else ''La wiki est'' @ a_acute
             @ '' deshabilitada y el token no tiene permisos para habilitarla'')"






section \<open>Example inputs\<close>

text \<open>Python's \<open>repr\<close> of a string of plain ASCII letters, digits and spaces.\<close>

definition quoted :: "string \<Rightarrow> string" where
  "quoted s = [CHR 0x27] @ s @ [CHR 0x27]"

definition issue_1 :: json where
  "issue_1 = JDict [(''number'', JInt 1), (''title'', JStr ''Timeout''), (''state'', JStr ''open''),
     (''created_at'', JStr ''2024-01-01T00:00:00Z''), (''closed_at'', JNull),
     (''labels'', JList [JStr ''bug'']), (''milestone'', JNull), (''body'', JStr [])]"

definition issue_2 :: json where
  "issue_2 = JDict [(''number'', JInt 2), (''title'', JStr ''Typo''), (''state'', JStr ''closed''),
     (''created_at'', JStr ''2024-01-02T00:00:00Z''), (''closed_at'', JStr ''2024-01-03T00:00:00Z''),
     (''labels'', JList []), (''milestone'', JStr ''v1''), (''body'', JStr ''Fixed'')]"

definition milestone_1 :: json where
  "milestone_1 = JDict [(''title'', JStr ''v1''), (''description'', JStr []),
     (''state'', JStr ''open''), (''created_at'', JNull), (''due_on'', JNull)]"

text \<open>The repository as the API reports it to a token that may push and pull, with the
  wiki enabled.\<close>

definition repo_granted :: json where
  "repo_granted = JDict [(''permissions'', JDict [(''admin'', JBool False), (''push'', JBool True),
     (''pull'', JBool True)]), (''has_wiki'', JBool True)]"

text \<open>Every subprocess exits with 0; \<open>git status --porcelain\<close> reports one changed file.\<close>

definition all_succeed :: "nat \<Rightarrow> string list \<Rightarrow> completed option" where
  "all_succeed n cmd =
     (if cmd = [''git'', ''status'', ''--porcelain'']
      then Some \<lparr>returncode = 0, stdout = '' M Home.md'' @ nl, stderr = []\<rparr>
      else Some \<lparr>returncode = 0, stdout = [], stderr = []\<rparr>)"

text \<open>The wiki has never been initialised: \<open>git clone\<close> exits with 128, every other
  subprocess with 0 and without output.\<close>

definition clone_fails :: "nat \<Rightarrow> string list \<Rightarrow> completed option" where
  "clone_fails n cmd =
     (if take 2 cmd = [''git'', ''clone'']
      then Some \<lparr>returncode = 128, stdout = [], stderr = ''fatal: remote error''\<rparr>
      else Some \<lparr>returncode = 0, stdout = [], stderr = []\<rparr>)"

definition example_env :: env where
  "example_env =
     \<lparr>original_dir = ''/w'', data_dir_exists = True,
      issues_file = Content (JList [issue_1]),
      milestones_file = Content (JList [milestone_1]),
      GITHUB_TOKEN = Some ''t'', GITHUB_REPOSITORY = Some ''o/r'',
      http_get = Some \<lparr>status_code = 200, json_body = Some repo_granted\<rparr>,
      http_patch = None,
      subprocess_run = all_succeed,
      can_write = (\<lambda>name. True), checked_out = (\<lambda>cmd fs. fs),
      repr_of_str = quoted, str_of_exn = (\<lambda>e. ''error'')\<rparr>"

definition example_world :: world where
  "example_world =
     \<lparr>wiki_node = Absent, git_credentials = True, cwd = ''/w'', commands = [],
      api_calls = [], printed = []\<rparr>"

text \<open>An issue whose labels mix a string with a number, and a milestone without title.\<close>

definition issue_mixed :: json where
  "issue_mixed = JDict [(''number'', JInt 3), (''title'', JStr ''Mixed''), (''state'', JStr ''open''),
     (''created_at'', JStr ''2024-01-04T00:00:00Z''), (''closed_at'', JNull),
     (''labels'', JList [JStr ''bug'', JInt 3]), (''milestone'', JNull), (''body'', JStr [])]"

definition milestone_untitled :: json where
  "milestone_untitled = JDict [(''description'', JStr ''later''), (''state'', JStr ''open'')]"

text \<open>The repository as the API reports it to a token that may only read.\<close>

definition repo_read_only :: json where
  "repo_read_only = JDict [(''permissions'', JDict [(''admin'', JBool False),
     (''push'', JBool False), (''pull'', JBool True)]), (''has_wiki'', JBool True)]"


section \<open>Reasoning about statements\<close>

text \<open>What a statement that ended in a given outcome has done.\<close>

lemma bindE:
  assumes "bind m f w = (r, w')"
  obtains (fail) e where "m w = (Inl e, w')" "r = Inl e"
        | (ok) x w1 where "m w = (Inr x, w1)" "f x w1 = (r, w')"
  using assms by (auto simp: bind_def split: prod.splits sum.splits)



lemma liftD: "lift v w = (r, w') \<Longrightarrow> r = v \<and> w' = w"
  by (auto simp: lift_def)





subsection \<open>Statements that start no subprocess\<close>

lemma quietD:
  "quiet m \<Longrightarrow> m w = (r, w') \<Longrightarrow> commands w' = commands w \<and> git_credentials w' = git_credentials w"
  unfolding quiet_def by (metis snd_conv)

lemma quiet_return: "quiet (return x)"
  by (simp add: quiet_def return_def)

lemma quiet_raise: "quiet (raise e)"
  by (simp add: quiet_def raise_def)

lemma quiet_lift: "quiet (lift v)"
  by (simp add: quiet_def lift_def)

lemma quiet_print: "quiet (print s)"
  by (simp add: quiet_def print_def)

lemma quiet_bind:
  assumes m: "quiet m" and f: "\<And>x. quiet (f x)"
  shows "quiet (bind m f)"
  unfolding quiet_def
proof (intro allI)
  fix w
  obtain r w1 where mw: "m w = (r, w1)" by (cases "m w")
  from quietD [OF m mw] have k: "commands w1 = commands w" "git_credentials w1 = git_credentials w"
    by simp_all
  show "commands (snd (bind m f w)) = commands w
      \<and> git_credentials (snd (bind m f w)) = git_credentials w"
  proof (cases r)
    case (Inl e)
    with mw k show ?thesis by (simp add: bind_def)
  next
    case (Inr x)
    obtain r2 w2 where fw: "f x w1 = (r2, w2)" by (cases "f x w1")
    from quietD [OF f fw] k mw Inr fw show ?thesis by (simp add: bind_def)
  qed
qed

lemma quiet_if: "quiet m \<Longrightarrow> quiet n \<Longrightarrow> quiet (if b then m else n)"
  by simp

lemma quiet_if_do: "quiet m \<Longrightarrow> quiet (if_do b m)"
  by (simp add: if_do_def quiet_return)

lemma quiet_for_each: "(\<And>x. quiet (body x)) \<Longrightarrow> quiet (for_each xs body)"
  by (induction xs) (simp_all add: quiet_return quiet_bind)

lemma quiet_open_w: "quiet (open_w env name)"
  by (auto simp: quiet_def open_w_def split: node.splits)

lemma quiet_f_write: "quiet (f_write name s)"
  by (auto simp: quiet_def f_write_def split: node.splits)

lemma quiet_verify: "quiet (verify_json_content env p df)"
  unfolding verify_json_content_def
  by (cases df) (simp_all add: quiet_raise quiet_bind quiet_if_do quiet_print quiet_return)

lemma quiet_write_milestone: "quiet (write_milestone env f ms)"
  unfolding write_milestone_def by (intro quiet_bind quiet_if_do quiet_lift quiet_f_write)

lemma quiet_write_issue_milestone: "quiet (write_issue_milestone env f i)"
  unfolding write_issue_milestone_def
  by (intro quiet_bind quiet_if_do quiet_if quiet_lift quiet_return quiet_f_write)

lemma quiet_write_issue_labels: "quiet (write_issue_labels f i)"
  unfolding write_issue_labels_def
  by (intro quiet_bind quiet_if_do quiet_lift quiet_f_write)

lemma quiet_write_issue_body: "quiet (write_issue_body env f i)"
  unfolding write_issue_body_def
  by (intro quiet_bind quiet_lift quiet_f_write)

lemma quiet_write_active_issue: "quiet (write_active_issue env f i)"
  unfolding write_active_issue_def by (intro quiet_bind quiet_lift quiet_f_write
    quiet_write_issue_milestone quiet_write_issue_labels quiet_write_issue_body)

lemma quiet_write_closed_issue: "quiet (write_closed_issue env f i)"
  unfolding write_closed_issue_def by (intro quiet_bind quiet_lift quiet_f_write
    quiet_write_issue_milestone quiet_write_issue_labels quiet_write_issue_body)

lemma quiet_write_pages: "quiet (write_pages env issues milestones)"
  unfolding write_pages_def by (intro quiet_bind quiet_lift quiet_f_write quiet_open_w
    quiet_for_each quiet_return quiet_write_milestone quiet_write_active_issue
    quiet_write_closed_issue)

lemma quiet_except_IOError:
  assumes m: "quiet m"
  shows "quiet (except_IOError env m)"
  unfolding quiet_def
proof (intro allI)
  fix w
  obtain r w1 where mw: "m w = (r, w1)" by (cases "m w")
  from quietD [OF m mw] mw
  show "commands (snd (except_IOError env m w)) = commands w
      \<and> git_credentials (snd (except_IOError env m w)) = git_credentials w"
    by (cases r) (simp_all add: except_IOError_def bind_def print_def return_def)
qed

lemma quiet_generate: "quiet (generate_wiki_content env d)"
  unfolding generate_wiki_content_def by (intro quiet_bind quiet_if quiet_verify quiet_print
    quiet_return quiet_except_IOError quiet_write_pages)



lemma quiet_mkdir: "quiet mkdir_exist_ok"
  by (auto simp: quiet_def mkdir_exist_ok_def split: node.splits)

lemma quiet_chdir_wiki: "quiet (chdir_wiki d)"
  by (auto simp: quiet_def chdir_wiki_def split: node.splits)

lemma quiet_chdir_original: "quiet (chdir_original d)"
  by (auto simp: quiet_def chdir_original_def)

lemma keepsD: "keeps P m \<Longrightarrow> filter P (commands (snd (m w))) = filter P (commands w)"
  by (simp add: keeps_def)

lemma keeps_quiet: "quiet m \<Longrightarrow> keeps P m"
  by (simp add: keeps_def quiet_def)

lemma keeps_bind:
  assumes m: "keeps P m" and f: "\<And>x w. fst (m w) = Inr x \<Longrightarrow> keeps P (f x)"
  shows "keeps P (bind m f)"
  unfolding keeps_def
proof (intro allI)
  fix w
  obtain r w1 where mw: "m w = (r, w1)" by (cases "m w")
  from keepsD [OF m, of w] mw have k: "filter P (commands w1) = filter P (commands w)"
    by simp
  show "filter P (commands (snd (bind m f w))) = filter P (commands w)"
  proof (cases r)
    case (Inl e)
    with mw k show ?thesis by (simp add: bind_def)
  next
    case (Inr x)
    with mw have "fst (m w) = Inr x" by simp
    from keepsD [OF f [OF this], of w1] k mw Inr show ?thesis by (simp add: bind_def)
  qed
qed


lemma keeps_if: "keeps P m \<Longrightarrow> keeps P n \<Longrightarrow> keeps P (if b then m else n)"
  by simp

lemma keeps_if_do: "keeps P m \<Longrightarrow> keeps P (if_do b m)"
  by (simp add: if_do_def keeps_quiet quiet_return)

lemma keeps_if_do_world: "keeps P m \<Longrightarrow> keeps P (\<lambda>w. if_do (b w) m w)"
  by (simp add: keeps_def if_do_def return_def)

lemma keeps_subprocess: "\<not> P cmd \<Longrightarrow> keeps P (subprocess env cmd)"
  by (auto simp: keeps_def subprocess_def split: option.splits)

lemma keeps_run_command: "\<not> P cmd \<Longrightarrow> keeps P (run_command env cmd check)"
  unfolding run_command_def
  by (intro keeps_bind keeps_if keeps_subprocess keeps_quiet quiet_bind quiet_print quiet_raise
      quiet_return)

lemma keeps_run_git_command: "\<not> P cmd \<Longrightarrow> keeps P (run_git_command env cmd msg check)"
proof -
  assume n: "\<not> P cmd"
  show ?thesis
    unfolding keeps_def
  proof (intro allI)
    fix w
    obtain r w1 where rw: "run_command env cmd False w = (r, w1)"
      by (cases "run_command env cmd False w")
    have "keeps P (run_command env cmd False)"
      using n by (rule keeps_run_command)
    from keepsD [OF this, of w] rw
    have "filter P (commands w1) = filter P (commands w)" by simp
    with rw show "filter P (commands (snd (run_git_command env cmd msg check w)))
        = filter P (commands w)"
      by (auto simp: run_git_command_def split: sum.splits exn.splits option.splits)
  qed
qed

lemma keeps_get_default_branch:
  "\<not> P [''git'', ''ls-remote'', ''--symref'', url, ''HEAD''] \<Longrightarrow> keeps P (get_default_branch env url)"
proof -
  assume n: "\<not> P [''git'', ''ls-remote'', ''--symref'', url, ''HEAD'']"
  show ?thesis
    unfolding keeps_def
  proof (intro allI)
    fix w
    obtain r w1 where rw: "run_command env [''git'', ''ls-remote'', ''--symref'', url, ''HEAD''] False w = (r, w1)"
      by (cases "run_command env [''git'', ''ls-remote'', ''--symref'', url, ''HEAD''] False w")
    have "keeps P (run_command env [''git'', ''ls-remote'', ''--symref'', url, ''HEAD''] False)"
      using n by (rule keeps_run_command)
    from keepsD [OF this, of w] rw
    have "filter P (commands w1) = filter P (commands w)" by simp
    with rw show "filter P (commands (snd (get_default_branch env url w))) = filter P (commands w)"
      by (auto simp: get_default_branch_def split: sum.splits)
  qed
qed

lemma keeps_safe_cleanup: "\<not> P [''rm'', ''-rf'', d] \<Longrightarrow> keeps P (safe_cleanup env d)"
proof -
  assume n: "\<not> P [''rm'', ''-rf'', d]"
  have k: "keeps P (bind (subprocess env [''rm'', ''-rf'', d]) (\<lambda>r.
            if returncode r \<noteq> 0 then
              print (''Error limpiando '' @ d @ '': ''
                @ str_of_exn env (CalledProcessError (returncode r) [''rm'', ''-rf'', d]))
            else return ()))"
    by (intro keeps_bind keeps_if keeps_subprocess n keeps_quiet quiet_print quiet_return)
  show ?thesis
    unfolding keeps_def
  proof (intro allI)
    fix w
    from keepsD [OF k, of w]
    show "filter P (commands (snd (safe_cleanup env d w))) = filter P (commands w)"
      by (cases "wiki_node w") (simp_all add: safe_cleanup_def)
  qed
qed

lemma failing_raise: "failing (raise e)"
  by (simp add: failing_def raise_def)


lemma failing_bind_right:
  assumes f: "\<And>x w. fst (m w) = Inr x \<Longrightarrow> failing (f x)"
  shows "failing (bind m f)"
  unfolding failing_def
proof (intro allI)
  fix w
  obtain r w1 where mw: "m w = (r, w1)" by (cases "m w")
  show "isl (fst (bind m f w))"
  proof (cases r)
    case (Inl e)
    with mw show ?thesis by (simp add: bind_def)
  next
    case (Inr x)
    with mw have "fst (m w) = Inr x" by simp
    from f [OF this] mw Inr show ?thesis by (simp add: bind_def failing_def)
  qed
qed

lemma failing_if: "failing m \<Longrightarrow> failing n \<Longrightarrow> failing (if b then m else n)"
  by simp


lemma quiet_verify_token: "quiet (verify_token env)"
  unfolding verify_token_def
  by (cases "GITHUB_TOKEN env") (simp_all add: quiet_raise quiet_return)

lemma quiet_check_repo_access: "quiet (check_repo_access env url)"
proof -
  have inner: "\<And>repo_data. quiet
     (bind (lift (py_get repo_data ''permissions'' (JDict []))) (\<lambda>permissions.
      bind (lift (py_get permissions ''push'' JNull)) (\<lambda>push.
      if \<not> truthy push then
        bind (print (''Permisos actuales: '' @ py_str (repr_of_str env) permissions)) (\<lambda>_.
        raise (WikiGenerationError ''El token no tiene permisos de escritura''))
      else
        bind (lift (py_get permissions ''pull'' JNull)) (\<lambda>pull.
        if \<not> truthy pull then
          raise (WikiGenerationError ''El token no tiene permisos de lectura'')
        else
          bind (lift (py_get repo_data ''has_wiki'' JNull)) (\<lambda>has_wiki.
          bind (lift (py_get permissions ''admin'' JNull)) (\<lambda>admin.
          if \<not> truthy has_wiki \<and> \<not> truthy admin then
            raise (WikiGenerationError
              (''La wiki est'' @ a_acute
                 @ '' deshabilitada y el token no tiene permisos para habilitarla''))
          else return repo_data))))))"
    by (intro quiet_bind quiet_if quiet_lift quiet_print quiet_raise quiet_return)
  show ?thesis
    unfolding quiet_def
  proof (intro allI)
    fix w
    show "commands (snd (check_repo_access env url w)) = commands w
        \<and> git_credentials (snd (check_repo_access env url w)) = git_credentials w"
      using inner [unfolded quiet_def]
      by (simp add: check_repo_access_def Let_def split: option.splits)
  qed
qed

lemma quiet_enable_wiki: "quiet (enable_wiki env url)"
  by (simp add: quiet_def enable_wiki_def Let_def split: option.splits)

lemma nc_initialize:
  assumes gen: "\<And>w. fst (generate_wiki_content env d w) \<noteq> Inr True"
  shows "keeps publishes (initialize_wiki env url dir d)"
    and "failing (initialize_wiki env url dir d)"
proof -
  have g: "\<And>x w. fst (generate_wiki_content env d w) = Inr x \<Longrightarrow> \<not> x"
    using gen by (metis (full_types))
  show "keeps publishes (initialize_wiki env url dir d)"
    unfolding initialize_wiki_def
    apply (rule keeps_bind, rule keeps_quiet, rule quiet_mkdir)
    apply (rule keeps_bind, rule keeps_quiet, rule quiet_chdir_wiki)
    apply (rule keeps_bind, rule keeps_run_git_command, simp add: publishes_def)
    apply (rule keeps_bind, rule keeps_run_git_command, simp add: publishes_def)
    apply (rule keeps_bind, rule keeps_quiet, rule quiet_generate)
    apply (drule g, simp add: keeps_quiet quiet_raise)
    done
  show "failing (initialize_wiki env url dir d)"
    unfolding initialize_wiki_def
    apply (rule failing_bind_right)+
    apply (drule g, simp add: failing_raise)
    done
qed

lemma nc_update:
  assumes gen: "\<And>w. fst (generate_wiki_content env d w) \<noteq> Inr True"
  shows "keeps publishes (update_wiki env url dir d)"
    and "failing (update_wiki env url dir d)"
proof -
  have g: "\<And>x w. fst (generate_wiki_content env d w) = Inr x \<Longrightarrow> \<not> x"
    using gen by (metis (full_types))
  show "keeps publishes (update_wiki env url dir d)"
    unfolding update_wiki_def
    apply (rule keeps_bind, rule keeps_quiet, rule quiet_chdir_wiki)
    apply (rule keeps_bind, rule keeps_get_default_branch, simp add: publishes_def)
    apply (rule keeps_bind, rule keeps_quiet, rule quiet_print)
    apply (rule keeps_bind, rule keeps_run_git_command, simp add: publishes_def)
    apply (rule keeps_bind, rule keeps_run_git_command, simp add: publishes_def)
    apply (rule keeps_bind, rule keeps_quiet, rule quiet_generate)
    apply (drule g, simp add: keeps_quiet quiet_raise)
    done
  show "failing (update_wiki env url dir d)"
    unfolding update_wiki_def
    apply (rule failing_bind_right)+
    apply (drule g, simp add: failing_raise)
    done
qed


lemmas keeps_quiet_steps =
  keeps_quiet [OF quiet_print] keeps_quiet [OF quiet_lift] keeps_quiet [OF quiet_return]
  keeps_quiet [OF quiet_raise] keeps_quiet [OF quiet_verify_token]
  keeps_quiet [OF quiet_check_repo_access] keeps_quiet [OF quiet_enable_wiki]
  keeps_quiet [OF quiet_chdir_original] keeps_quiet [OF quiet_generate]

lemma nc_synchronize:
  assumes gen: "\<And>w. fst (generate_wiki_content env d w) \<noteq> Inr True"
  shows "keeps publishes (synchronize env dir d)"
    and "failing (synchronize env dir d)"
proof -
  show "keeps publishes (synchronize env dir d)"
    unfolding synchronize_def
    by (intro keeps_bind keeps_if keeps_if_do keeps_if_do_world keeps_quiet_steps
        keeps_run_command keeps_run_git_command keeps_safe_cleanup
        nc_initialize(1) [OF gen] nc_update(1) [OF gen])
      (simp_all add: publishes_def)
  show "failing (synchronize env dir d)"
    unfolding synchronize_def
    apply (rule failing_bind_right)+
    apply (rule failing_if)
     apply (rule nc_initialize(2) [OF gen])
    apply (rule nc_update(2) [OF gen])
    done
qed

lemma keeps_finalize:
  "\<not> P [''rm'', ''-rf'', dir] \<Longrightarrow> keeps P (finalize env dir success)"
proof -
  assume n: "\<not> P [''rm'', ''-rf'', dir]"
  have c: "keeps P (\<lambda>w. (Inr (), w\<lparr>git_credentials := False\<rparr>) :: (exn + unit) \<times> world)"
    by (simp add: keeps_def)
  show ?thesis
    unfolding finalize_def
    by (intro keeps_bind keeps_if_do_world keeps_quiet_steps keeps_safe_cleanup n c)
qed

lemma keeps_try_finally:
  assumes b: "keeps P body" and f: "\<And>s. keeps P (final s)"
  shows "keeps P (try_finally env body final)"
  unfolding keeps_def
proof (intro allI)
  fix w
  obtain r w1 where bw: "body w = (r, w1)" by (cases "body w")
  from keepsD [OF b, of w] bw have k: "filter P (commands w1) = filter P (commands w)"
    by simp
  show "filter P (commands (snd (try_finally env body final w))) = filter P (commands w)"
  proof (cases r)
    case (Inl e)
    obtain r2 w2 where fw: "final False w1 = (r2, w2)" by (cases "final False w1")
    from keepsD [OF f, of False w1] fw k bw Inl show ?thesis
      by (cases r2) (simp_all add: try_finally_def)
  next
    case (Inr u)
    from keepsD [OF f, of True w1] k bw Inr show ?thesis
      by (simp add: try_finally_def)
  qed
qed

lemma failing_try_finally:
  assumes b: "failing body"
  shows "failing (try_finally env body final)"
  unfolding failing_def
proof (intro allI)
  fix w
  obtain r w1 where bw: "body w = (r, w1)" by (cases "body w")
  from b have "isl (fst (body w))" by (simp add: failing_def)
  with bw obtain e where e: "r = Inl e" by (cases r) simp_all
  obtain r2 w2 where fw: "final False w1 = (r2, w2)" by (cases "final False w1")
  from bw e fw show "isl (fst (try_finally env body final w))"
    by (cases r2) (simp_all add: try_finally_def)
qed

lemma no_content_run:
  assumes gen: "\<And>w. fst (generate_wiki_content env (path_join (original_dir env) ''data'') w)
                  \<noteq> Inr True"
  shows "isl (fst (generate_wiki_pages env w))"
    and "filter publishes (commands (snd (generate_wiki_pages env w)))
           = filter publishes (commands w)"
proof -
  have "failing (generate_wiki_pages env)"
    unfolding generate_wiki_pages_def
    by (intro failing_bind_right failing_if failing_raise failing_try_finally
        nc_synchronize(2) [OF gen])
  then show "isl (fst (generate_wiki_pages env w))"
    by (simp add: failing_def)
  have "keeps publishes (generate_wiki_pages env)"
    unfolding generate_wiki_pages_def
    by (intro keeps_bind keeps_if keeps_quiet_steps keeps_try_finally keeps_finalize
        nc_synchronize(1) [OF gen])
      (simp_all add: publishes_def)
  then show "filter publishes (commands (snd (generate_wiki_pages env w)))
           = filter publishes (commands w)"
    by (rule keepsD)
qed

subsection \<open>Unfolding a run on given inputs\<close>

lemmas generate_defs = generate_wiki_content_def except_IOError_def write_pages_def
  write_closed_issue_def write_active_issue_def write_issue_body_def write_issue_labels_def
  write_issue_milestone_def write_milestone_def issues_with_state_def verify_json_content_def
  f_write_def open_w_def path_join_def print_def if_do_def lift_def bind_def raise_def
  return_def format_labels_def py_join_def py_str_def

lemmas run_defs = generate_wiki_pages_def try_finally_def synchronize_def finalize_def handle_def
  update_wiki_def initialize_wiki_def publish_update_def publish_initial_def chdir_original_def chdir_wiki_def mkdir_exist_ok_def
  enable_wiki_def check_repo_access_def api_error_def verify_token_def
  safe_cleanup_def run_git_command_def get_default_branch_def run_command_def
  subprocess_def effect_def strip_def is_space_def generate_defs

lemmas example_defs = example_env_def example_world_def repo_granted_def all_succeed_def
  clone_fails_def quoted_def issue_1_def issue_2_def issue_mixed_def milestone_1_def
  milestone_untitled_def

subsection \<open>The finally clause\<close>


lemma finalize_failure:
  assumes "\<forall>n. subprocess_run env n [''rm'', ''-rf'', dir] \<noteq> None"
  shows "\<exists>w'. finalize env dir False w = (Inr (), w')
           \<and> git_credentials w' = False
           \<and> (wiki_node w' = Absent \<or> wiki_node w' = wiki_node w)
           \<and> ((\<forall>n c. subprocess_run env n [''rm'', ''-rf'', dir] = Some c \<longrightarrow> returncode c = 0)
                \<longrightarrow> (\<forall>fs. wiki_node w' \<noteq> Directory fs))"
proof (cases "wiki_node w")
  case Absent
  then show ?thesis
    by (simp add: finalize_def bind_def chdir_original_def print_def if_do_def return_def)
next
  case RegularFile
  then show ?thesis
    by (simp add: finalize_def bind_def chdir_original_def print_def if_do_def return_def
        safe_cleanup_def)
next
  case (Directory fs)
  from assms obtain c where
    c: "subprocess_run env (length (commands w)) [''rm'', ''-rf'', dir] = Some c"
    by (metis option.exhaust)
  with Directory show ?thesis
    by (auto simp: finalize_def bind_def chdir_original_def print_def if_do_def return_def
        safe_cleanup_def subprocess_def effect_def)
qed

subsection \<open>The steps before the clone\<close>

lemma py_get_dict: "is_dict j \<Longrightarrow> py_get j k d = Inr (dict_get j k d)"
  by (cases j) (simp_all split: option.splits)

lemma strip_Nil: "strip [] = []"
  by (simp add: strip_def)

lemma verify_token_ok:
  "GITHUB_TOKEN env = Some token \<Longrightarrow> strip token \<noteq> [] \<Longrightarrow> verify_token env = return token"
  by (auto simp: verify_token_def strip_Nil)

lemma cleanup_start:
  assumes "\<forall>n. subprocess_run env n [''rm'', ''-rf'', dir] \<noteq> None"
  shows "\<exists>w1. if_do (wiki_node w \<noteq> Absent) (safe_cleanup env dir) w = (Inr (), w1)
           \<and> (wiki_node w1 = Absent \<or> wiki_node w1 = wiki_node w)
           \<and> filter (\<lambda>c. c \<noteq> [''rm'', ''-rf'', dir]) (commands w1)
               = filter (\<lambda>c. c \<noteq> [''rm'', ''-rf'', dir]) (commands w)"
proof (cases "wiki_node w")
  case Absent
  then show ?thesis by (simp add: if_do_def return_def)
next
  case RegularFile
  then show ?thesis by (simp add: if_do_def safe_cleanup_def)
next
  case (Directory fs)
  from assms obtain c where
    c: "subprocess_run env (length (commands w)) [''rm'', ''-rf'', dir] = Some c"
    by (metis option.exhaust)
  with Directory show ?thesis
    by (auto simp: if_do_def safe_cleanup_def subprocess_def effect_def bind_def print_def
        return_def)
qed

lemma check_refused:
  assumes "http_get env = Some response"
      and "\<not> (400 \<le> status_code response \<and> status_code response < 600)"
      and "json_body response = Some repo_data"
      and "is_dict repo_data" "is_dict (dict_get repo_data ''permissions'' (JDict []))"
      and "\<not> permission repo_data ''push'' \<or> \<not> permission repo_data ''pull''
           \<or> (\<not> wiki_enabled repo_data \<and> \<not> permission repo_data ''admin'')"
  shows "\<exists>w'. check_repo_access env url w = (Inl (WikiGenerationError (refusal repo_data)), w')
           \<and> wiki_node w' = wiki_node w \<and> commands w' = commands w"
  using assms
  by (auto simp: check_repo_access_def Let_def py_get_dict bind_def lift_def print_def
      raise_def return_def permission_def wiki_enabled_def refusal_def)

subsection \<open>The publishing blocks\<close>





subsection \<open>The branch for a cloned wiki\<close>









subsection \<open>A first run, on a wiki that cannot be cloned\<close>


section \<open>Properties of label normalisation\<close>

text \<open>
  C9. Label normalisation on the five input shapes of the specification: absent (None)
  and the empty list give the empty list, the single string "bug" gives ["bug"], a list
  of strings is returned unchanged, and a list of objects each named "bug" gives one
  "bug" per object, in particular ["bug"] for one object and the set {"bug"} for any
  non-empty list of them. The function is total: it has no error result.
\<close>

theorem format_labels_shapes:
  "format_labels JNull = []
   \<and> format_labels (JList []) = []
   \<and> format_labels (JStr ''bug'') = [JStr ''bug'']
   \<and> format_labels (JList (map JStr ss)) = map JStr ss
   \<and> format_labels (JList [JDict [(''name'', JStr ''bug'')]]) = [JStr ''bug'']
   \<and> format_labels (JList (replicate (Suc n) (JDict [(''name'', JStr ''bug'')])))
       = replicate (Suc n) (JStr ''bug'')
   \<and> set (format_labels (JList (replicate (Suc n) (JDict [(''name'', JStr ''bug'')]))))
       = {JStr ''bug''}"
proof -
  have strs: "format_labels (JList (map JStr ss)) = map JStr ss"
  proof (cases ss)
    case Nil
    then show ?thesis by (simp add: format_labels_def)
  next
    case (Cons s rest)
    then show ?thesis by (simp add: format_labels_def)
  qed
  have dicts: "format_labels (JList (replicate (Suc n) (JDict [(''name'', JStr ''bug'')])))
       = replicate (Suc n) (JStr ''bug'')"
    by (simp add: format_labels_def list_all_iff)
  have "set (replicate (Suc n) (JStr ''bug'')) = {JStr ''bug''}"
    by auto
  with strs dicts show ?thesis
    by (simp add: format_labels_def del: replicate_Suc)
qed

section \<open>Properties of content generation\<close>



lemma verify_unusable:
  "\<forall>j. df \<noteq> Content j \<Longrightarrow> \<exists>e. verify_json_content env p df w = (Inl e, w)"
  by (cases df) (auto simp: verify_json_content_def raise_def)

lemma verify_content:
  "verify_json_content env p (Content data) w =
     (Inr data, if truthy data then w
                else w\<lparr>printed := printed w @ [''Advertencia: '' @ p @ '' est'' @ a_acute @ '' vac'' @ i_acute @ ''o'']\<rparr>)"
  by (simp add: verify_json_content_def bind_def if_do_def print_def return_def)

text \<open>
  C10. When the issues file or the milestones file is missing, cannot be opened, is not
  UTF-8 or is not JSON, content generation ends with an exception and the working tree
  is as it was: no page has been written. A file that decodes to an empty (falsy) value
  is returned by \<open>verify_json_content\<close> with only the warning printed.
\<close>

theorem unusable_data_file_raises:
  assumes "(\<forall>j. issues_file env \<noteq> Content j) \<or> (\<forall>j. milestones_file env \<noteq> Content j)"
  shows "(\<exists>e. fst (generate_wiki_content env data_dir w) = Inl e)
       \<and> wiki_node (snd (generate_wiki_content env data_dir w)) = wiki_node w
       \<and> (\<not> truthy data \<longrightarrow>
            verify_json_content env file_path (Content data) w
              = (Inr data, w\<lparr>printed := printed w @
                   [''Advertencia: '' @ file_path @ '' est'' @ a_acute @ '' vac'' @ i_acute @ ''o'']\<rparr>))"
proof (cases "\<forall>j. issues_file env \<noteq> Content j")
  case True
  from verify_unusable [OF True] obtain e where
    "verify_json_content env (path_join data_dir ''issues.json'') (issues_file env) w = (Inl e, w)"
    by blast
  then show ?thesis
    by (simp add: generate_wiki_content_def bind_def verify_content)
next
  case False
  then obtain j where j: "issues_file env = Content j" by blast
  with assms have m: "\<forall>j. milestones_file env \<noteq> Content j" by auto
  obtain w1 where w1: "verify_json_content env (path_join data_dir ''issues.json'') (issues_file env) w = (Inr j, w1)"
    and n1: "wiki_node w1 = wiki_node w"
    by (simp add: j verify_content)
  from verify_unusable [OF m] obtain e where
    "verify_json_content env (path_join data_dir ''milestones.json'') (milestones_file env) w1 = (Inl e, w1)"
    by blast
  with w1 n1 show ?thesis
    by (simp add: generate_wiki_content_def bind_def verify_content)
qed



theorem unusable_data_file_raises_witness:
  "(\<exists>e. fst (generate_wiki_content (example_env\<lparr>milestones_file := Malformed\<rparr>) ''/w/data''
             example_world) = Inl e)
   \<and> wiki_node (snd (generate_wiki_content (example_env\<lparr>milestones_file := Malformed\<rparr>)
        ''/w/data'' example_world)) = Absent
   \<and> fst (verify_json_content (example_env\<lparr>milestones_file := Malformed\<rparr>)
        ''/w/data/issues.json'' (Content (JList [])) example_world) = Inr (JList [])"
proof -
  have h: "(\<forall>j. issues_file (example_env\<lparr>milestones_file := Malformed\<rparr>) \<noteq> Content j)
         \<or> (\<forall>j. milestones_file (example_env\<lparr>milestones_file := Malformed\<rparr>) \<noteq> Content j)"
    by simp
  from unusable_data_file_raises [OF h, of "''/w/data''" example_world "JList []"
      "''/w/data/issues.json''"]
  show ?thesis
    by (simp add: example_world_def)
qed

lemma except_IOError_True:
  "except_IOError env m w = (Inr True, w') \<Longrightarrow> m w = (Inr True, w')"
  by (auto simp: except_IOError_def bind_def print_def return_def
      split: prod.splits sum.splits if_splits)

lemma generate_True:
  assumes ms: "milestones_file env = Content ms"
      and run: "generate_wiki_content env d w = (Inr True, w')"
  shows "\<exists>issues w1. write_pages env issues ms w1 = (Inr True, w')"
proof -
  from run [unfolded generate_wiki_content_def] show ?thesis
  proof (cases rule: bindE)
    case (fail e)
    then show ?thesis by simp
  next
    case (ok issues w1)
    from ok(2) show ?thesis
    proof (cases rule: bindE)
      case (fail e)
      then show ?thesis by simp
    next
      case (ok milestones w2)
      from ok(1) ms have "milestones = ms" by (simp add: verify_content)
      with ok(2) show ?thesis
        by (auto simp: bind_def print_def return_def dest: except_IOError_True
            split: if_splits)
    qed
  qed
qed

lemma write_milestone_title:
  "write_milestone env f m w = (Inr u, w') \<Longrightarrow> \<exists>v. subscript m ''title'' = Inr v"
  by (cases "subscript m ''title''") (simp_all add: write_milestone_def bind_def lift_def)

lemma for_each_titles:
  "for_each mss (write_milestone env f) w = (Inr u, w') \<Longrightarrow>
     list_all (\<lambda>m. \<exists>v. subscript m ''title'' = Inr v) mss"
proof (induction mss arbitrary: w)
  case Nil
  then show ?case by simp
next
  case (Cons m mss)
  from Cons.prems
  have "bind (write_milestone env f m) (\<lambda>_. for_each mss (write_milestone env f)) w = (Inr u, w')"
    by simp
  then show ?case
  proof (cases rule: bindE)
    case (fail e)
    then show ?thesis by simp
  next
    case (ok x w1)
    from Cons.IH [OF ok(2)] write_milestone_title [OF ok(1)] show ?thesis by simp
  qed
qed


lemma write_pages_True:
  assumes "write_pages env issues ms w = (Inr True, w')"
  shows "\<exists>mss w1 w2 u. py_iter ms = Inr mss
           \<and> for_each mss (write_milestone env ''Milestones.md'') w1 = (Inr u, w2)"
  using assms unfolding write_pages_def
  by (elim bindE; clarsimp simp: lift_def; blast)

lemma titleless_not_generated:
  assumes ms: "milestones_file env = Content (JList mss)"
      and m: "m \<in> set mss" and t: "subscript m ''title'' = Inl e"
  shows "fst (generate_wiki_content env d w) \<noteq> Inr True"
proof
  assume "fst (generate_wiki_content env d w) = Inr True"
  then obtain w' where "generate_wiki_content env d w = (Inr True, w')"
    by (cases "generate_wiki_content env d w") simp
  from generate_True [OF ms this] obtain issues w1 where
    "write_pages env issues (JList mss) w1 = (Inr True, w')" by blast
  from write_pages_True [OF this] obtain w2 w3 u where
    "for_each mss (write_milestone env ''Milestones.md'') w2 = (Inr u, w3)" by auto
  from for_each_titles [OF this] m have "\<exists>v. subscript m ''title'' = Inr v"
    by (simp add: list_all_iff)
  with t show False by simp
qed

lemma empty_not_generated:
  assumes "issues_file env = Content issues" "milestones_file env = Content milestones"
      and "\<not> truthy issues" "\<not> truthy milestones"
  shows "generate_wiki_content env d w =
     (Inr False, w\<lparr>printed := printed w @
        [''Advertencia: '' @ path_join d ''issues.json'' @ '' est'' @ a_acute @ '' vac'' @ i_acute @ ''o'',
         ''Advertencia: '' @ path_join d ''milestones.json'' @ '' est'' @ a_acute @ '' vac'' @ i_acute @ ''o'',
         ''No hay datos para generar en la wiki'']\<rparr>)"
  using assms
  by (simp add: generate_wiki_content_def verify_content bind_def print_def return_def)

section \<open>Properties of the synchronisation run\<close>

text \<open>
  C1. When both data files decode to empty (falsy) collections, the content generator
  returns False without raising and without touching the working tree. The run then
  does not end in success: the caller raises on the False result (lines 131--132 and
  152--153), so the run ends with an exception, and it starts no subprocess that
  stages, commits or pushes.
\<close>

theorem empty_input_fails_run:
  assumes "issues_file env = Content issues" "milestones_file env = Content milestones"
      and "\<not> truthy issues" "\<not> truthy milestones"
  shows "fst (generate_wiki_content env data_dir w) = Inr False
       \<and> wiki_node (snd (generate_wiki_content env data_dir w)) = wiki_node w
       \<and> (\<exists>e. fst (generate_wiki_pages env w) = Inl e)
       \<and> filter publishes (commands (snd (generate_wiki_pages env w)))
           = filter publishes (commands w)"
proof -
  have gen: "\<And>d w. fst (generate_wiki_content env d w) \<noteq> Inr True"
    using assms by (simp add: empty_not_generated)
  from no_content_run(1) [OF gen, where w = w] have "\<exists>e'. fst (generate_wiki_pages env w) = Inl e'"
    by (cases "fst (generate_wiki_pages env w)") simp_all
  with no_content_run(2) [OF gen, where w = w] assms show ?thesis
    by (simp add: empty_not_generated)
qed

theorem empty_input_fails_run_witness:
  "fst (generate_wiki_content
          (example_env\<lparr>issues_file := Content (JList []), milestones_file := Content (JList [])\<rparr>)
          ''/w/data'' example_world) = Inr False
   \<and> (\<exists>e. fst (generate_wiki_pages
          (example_env\<lparr>issues_file := Content (JList []), milestones_file := Content (JList [])\<rparr>)
          example_world) = Inl e)
   \<and> filter publishes (commands (snd (generate_wiki_pages
          (example_env\<lparr>issues_file := Content (JList []), milestones_file := Content (JList [])\<rparr>)
          example_world))) = []"
  using empty_input_fails_run [where env = "example_env\<lparr>issues_file := Content (JList []),
      milestones_file := Content (JList [])\<rparr>" and issues = "JList []" and milestones = "JList []"
      and data_dir = "''/w/data''" and w = example_world]
  by (simp add: example_world_def)

text \<open>The run on two empty data files, every subprocess succeeding: it ends with the
  WikiGenerationError of line 153, not with success.\<close>

theorem empty_input_run_counterexample:
  "fst (generate_wiki_pages
          (example_env\<lparr>issues_file := Content (JList []), milestones_file := Content (JList [])\<rparr>)
          example_world)
     = Inl (WikiGenerationError ''No se pudo generar el contenido'')"
  by (simp add: run_defs example_defs)

text \<open>
  C8. A milestone record without a title is not rejected before rendering. Whenever
  the list of milestones holds a record whose title cannot be read, content generation
  never reports success, so the run ends with an exception and starts no subprocess that
  stages, commits or pushes.
\<close>

theorem titleless_milestone_aborts:
  assumes "milestones_file env = Content (JList mss)"
      and "m \<in> set mss" and "subscript m ''title'' = Inl e"
  shows "fst (generate_wiki_content env data_dir w) \<noteq> Inr True
       \<and> (\<exists>e'. fst (generate_wiki_pages env w) = Inl e')
       \<and> filter publishes (commands (snd (generate_wiki_pages env w)))
           = filter publishes (commands w)"
proof -
  have gen: "\<And>d w. fst (generate_wiki_content env d w) \<noteq> Inr True"
    using assms by (rule titleless_not_generated)
  from no_content_run(1) [OF gen, where w = w] have "\<exists>e'. fst (generate_wiki_pages env w) = Inl e'"
    by (cases "fst (generate_wiki_pages env w)") simp_all
  with gen no_content_run(2) [OF gen, where w = w] show ?thesis by simp
qed

theorem titleless_milestone_aborts_witness:
  "fst (generate_wiki_content
          (example_env\<lparr>milestones_file := Content (JList [milestone_1, milestone_untitled])\<rparr>)
          ''/w/data'' example_world) \<noteq> Inr True
   \<and> (\<exists>e'. fst (generate_wiki_pages
          (example_env\<lparr>milestones_file := Content (JList [milestone_1, milestone_untitled])\<rparr>)
          example_world) = Inl e')
   \<and> filter publishes (commands (snd (generate_wiki_pages
          (example_env\<lparr>milestones_file := Content (JList [milestone_1, milestone_untitled])\<rparr>)
          example_world))) = []"
  using titleless_milestone_aborts [where env = "example_env\<lparr>milestones_file :=
      Content (JList [milestone_1, milestone_untitled])\<rparr>"
      and mss = "[milestone_1, milestone_untitled]" and m = milestone_untitled
      and e = "KeyError ''title''" and data_dir = "''/w/data''" and w = example_world]
  by (simp add: example_world_def milestone_untitled_def)

text \<open>Rendering has begun when the record without title is reached: the index page
  and the milestones page up to that record are written, then KeyError is raised.\<close>

theorem titleless_milestone_counterexample:
  "generate_wiki_content
      (example_env\<lparr>milestones_file := Content (JList [milestone_1, milestone_untitled])\<rparr>)
      ''/w/data'' (example_world\<lparr>wiki_node := Directory []\<rparr>)
     = (Inl (KeyError ''title''),
        example_world\<lparr>wiki_node := Directory
          [(''Home.md'', home_text),
           (''Milestones.md'',
              ''# Milestones del Servicio MercadoPago'' @ nl @ nl
              @ ''## v1'' @ nl @ ''**Estado:** open'' @ nl @ nl
              @ ''**Descripci'' @ o_acute @ ''n:** '' @ sin_descripcion @ nl @ nl
              @ ''---'' @ nl @ nl)]\<rparr>)"
  by (simp add: generate_defs example_defs)

text \<open>
  C4. The run on an issue whose labels are the list ["bug", 3]: \<open>format_labels\<close>
  returns the list as it is, \<open>', '.join\<close> raises TypeError on the number, the
  exception is not an IOError and leaves \<open>generate_wiki_content\<close>, and the run ends
  with "Error inesperado" without publishing the well-formed record.
\<close>

theorem mixed_labels_abort_run:
  "format_labels (JList [JStr ''bug'', JInt 3]) = [JStr ''bug'', JInt 3]
   \<and> py_join '', '' [JStr ''bug'', JInt 3] = Inl TypeError
   \<and> fst (generate_wiki_pages
             (example_env\<lparr>issues_file := Content (JList [issue_mixed, issue_2])\<rparr>) example_world)
       = Inl (WikiGenerationError ''Error inesperado: error'')
   \<and> filter publishes (commands (snd (generate_wiki_pages
             (example_env\<lparr>issues_file := Content (JList [issue_mixed, issue_2])\<rparr>) example_world)))
       = []"
  by (simp add: run_defs example_defs publishes_def)




text \<open>
  C7. Whenever the API answers the access check with a repository description in which
  the token may not push, or may not pull, or the wiki is disabled and the token is not
  an administrator, the run ends with the WikiGenerationError of the check (lines 330--336).
  Up to that point and in the clean-up after it the only subprocess started is the
  \<open>rm -rf\<close> of an old working tree: nothing is cloned or initialised, and no
  directory is created at \<open>wiki_content\<close>.
\<close>

theorem access_refused_before_workspace:
  assumes "data_dir_exists env"
      and "GITHUB_TOKEN env = Some token" "strip token \<noteq> []"
      and "GITHUB_REPOSITORY env = Some repo"
      and "http_get env = Some response"
      and "\<not> (400 \<le> status_code response \<and> status_code response < 600)"
      and "json_body response = Some repo_data"
      and "is_dict repo_data" "is_dict (dict_get repo_data ''permissions'' (JDict []))"
      and "\<not> permission repo_data ''push'' \<or> \<not> permission repo_data ''pull''
           \<or> (\<not> wiki_enabled repo_data \<and> \<not> permission repo_data ''admin'')"
      and "\<forall>n. subprocess_run env n
              [''rm'', ''-rf'', path_join (original_dir env) ''wiki_content''] \<noteq> None"
  shows "fst (generate_wiki_pages env w) = Inl (WikiGenerationError (refusal repo_data))
       \<and> filter (\<lambda>c. c \<noteq> [''rm'', ''-rf'', path_join (original_dir env) ''wiki_content''])
             (commands (snd (generate_wiki_pages env w)))
           = filter (\<lambda>c. c \<noteq> [''rm'', ''-rf'', path_join (original_dir env) ''wiki_content''])
               (commands w)
       \<and> (wiki_node (snd (generate_wiki_pages env w)) = Absent
            \<or> wiki_node (snd (generate_wiki_pages env w)) = wiki_node w)"
proof -
  let ?dir = "path_join (original_dir env) ''wiki_content''"
  let ?rm = "[''rm'', ''-rf'', ?dir]"
  let ?w0 = "w\<lparr>printed := printed w @ [''Iniciando generaci'' @ o_acute
                          @ ''n de Wiki desde '' @ original_dir env]\<rparr>"
  let ?body = "synchronize env ?dir (path_join (original_dir env) ''data'')"
  have run: "generate_wiki_pages env w = try_finally env ?body (finalize env ?dir) ?w0"
    using assms(1) by (simp add: generate_wiki_pages_def bind_def print_def)
  from cleanup_start [OF assms(11), of ?w0] obtain w1 where
    c: "if_do (wiki_node ?w0 \<noteq> Absent) (safe_cleanup env ?dir) ?w0 = (Inr (), w1)"
       "wiki_node w1 = Absent \<or> wiki_node w1 = wiki_node w"
       "filter (\<lambda>c. c \<noteq> ?rm) (commands w1) = filter (\<lambda>c. c \<noteq> ?rm) (commands w)"
    by auto
  let ?w2 = "w1\<lparr>printed := printed w1 @ [''Verificando acceso al repositorio y permisos...'']\<rparr>"
  from check_refused [OF assms(5-10), of "''https://api.github.com/repos/'' @ repo" ?w2]
  obtain w3 where
    k: "check_repo_access env (''https://api.github.com/repos/'' @ repo) ?w2
          = (Inl (WikiGenerationError (refusal repo_data)), w3)"
       "wiki_node w3 = wiki_node w1" "commands w3 = commands w1"
    by auto
  have body: "?body ?w0 = (Inl (WikiGenerationError (refusal repo_data)), w3)"
    using c(1) k(1) assms(4)
    by (simp add: synchronize_def verify_token_ok [OF assms(2,3)] bind_def return_def lift_def
        print_def)
  from finalize_failure [OF assms(11), of w3] obtain w4 where
    f: "finalize env ?dir False w3 = (Inr (), w4)"
       "wiki_node w4 = Absent \<or> wiki_node w4 = wiki_node w3"
    by blast
  have "keeps (\<lambda>c. c \<noteq> ?rm) (finalize env ?dir False)"
    by (rule keeps_finalize) simp
  from keepsD [OF this, of w3] f(1)
  have fc: "filter (\<lambda>c. c \<noteq> ?rm) (commands w4) = filter (\<lambda>c. c \<noteq> ?rm) (commands w3)"
    by simp
  from body f(1) have "generate_wiki_pages env w = (Inl (WikiGenerationError (refusal repo_data)), w4)"
    by (simp add: run try_finally_def handle_def)
  with f(2) fc k(2,3) c(2,3) show ?thesis by auto
qed

theorem access_refused_before_workspace_witness:
  "fst (generate_wiki_pages
          (example_env\<lparr>http_get := Some \<lparr>status_code = 200, json_body = Some repo_read_only\<rparr>\<rparr>)
          example_world)
     = Inl (WikiGenerationError ''El token no tiene permisos de escritura'')
   \<and> filter (\<lambda>c. c \<noteq> [''rm'', ''-rf'', ''/w/wiki_content''])
       (commands (snd (generate_wiki_pages
          (example_env\<lparr>http_get := Some \<lparr>status_code = 200, json_body = Some repo_read_only\<rparr>\<rparr>)
          example_world))) = []
   \<and> wiki_node (snd (generate_wiki_pages
          (example_env\<lparr>http_get := Some \<lparr>status_code = 200, json_body = Some repo_read_only\<rparr>\<rparr>)
          example_world)) = Absent"
proof -
  let ?env = "example_env\<lparr>http_get := Some \<lparr>status_code = 200, json_body = Some repo_read_only\<rparr>\<rparr>"
  have h: "data_dir_exists ?env" "GITHUB_TOKEN ?env = Some ''t''" "strip ''t'' \<noteq> []"
    "GITHUB_REPOSITORY ?env = Some ''o/r''"
    "http_get ?env = Some \<lparr>status_code = 200, json_body = Some repo_read_only\<rparr>"
    "\<not> (400 \<le> status_code \<lparr>status_code = 200, json_body = Some repo_read_only\<rparr>
        \<and> status_code \<lparr>status_code = 200, json_body = Some repo_read_only\<rparr> < 600)"
    "json_body \<lparr>status_code = 200, json_body = Some repo_read_only\<rparr> = Some repo_read_only"
    "is_dict repo_read_only" "is_dict (dict_get repo_read_only ''permissions'' (JDict []))"
    "\<not> permission repo_read_only ''push'' \<or> \<not> permission repo_read_only ''pull''
       \<or> (\<not> wiki_enabled repo_read_only \<and> \<not> permission repo_read_only ''admin'')"
    "\<forall>n. subprocess_run ?env n [''rm'', ''-rf'', path_join (original_dir ?env) ''wiki_content'']
       \<noteq> None"
    by (simp_all add: example_env_def repo_read_only_def all_succeed_def permission_def
        strip_def is_space_def)
  have m: "refusal repo_read_only = ''El token no tiene permisos de escritura''"
    by (simp add: refusal_def permission_def repo_read_only_def)
  have p: "path_join (original_dir example_env) ''wiki_content'' = ''/w/wiki_content''"
    by (simp add: example_env_def path_join_def)
  from access_refused_before_workspace [OF h, of example_world] m
  show ?thesis
    by (simp add: example_world_def p)
qed







end
